theory Spec2Isabelle
  imports Complex_Main
begin

section \<open>Values, errors and the outside world\<close>

text \<open>
  The handler of \<^verbatim>\<open>src/lambda/lambda_function.py\<close> receives a decoded JSON event.
  A Python \<^verbatim>\<open>str\<close> is modelled by its UTF-8 bytes, a \<^verbatim>\<open>dict\<close> by an association
  list read with \<open>map_of\<close>. \<open>JNum\<close> is an integer JSON number; the handler never
  computes with a number, it only prints it, and a fractional one would differ in
  nothing but its printed form.
\<close>

datatype json =
    JNull
  | JBool bool
  | JNum int
  | JStr string
  | JList "json list"
  | JDict "(string \<times> json) list"

text \<open>
  Every exception the handler can meet is a value. \<open>ClientError\<close> and
  \<open>HTTPError\<close> stand for whatever boto3 and urllib3 raise.
\<close>

datatype error =
    AttributeError
  | TypeError
  | IndexError
  | KeyError
  | ValueError
  | ClientError string
  | HTTPError string

text \<open>One element of the \<^verbatim>\<open>'Tags'\<close> list that \<^verbatim>\<open>describe_tags\<close> returns.\<close>

record tag =
  Key :: string
  Value :: string

text \<open>
  A \<^verbatim>\<open>datetime\<close>: its calendar fields as microseconds since 1970-01-01T00:00:00 on
  its own wall clock, and the UTC offset of its \<^verbatim>\<open>tzinfo\<close> in microseconds
  (\<open>None\<close> for a naive value).
\<close>

record datetime =
  wall_us :: int
  utcoffset :: "int option"

text \<open>
  The operations the handler invokes, in the order it invokes them:
  the tag query, the command dispatch, an entry into \<^verbatim>\<open>send_discord\<close> and the
  HTTP POST it performs. The POST carries the payload itself; its body is
  \<^verbatim>\<open>json.dumps(payload).encode('utf-8')\<close>.
\<close>

datatype call =
    is_DescribeTags: DescribeTags json
  | is_SendCommand: SendCommand json "string option"
  | is_SendDiscord: SendDiscord json string string int
  | is_HttpPost: HttpPost string json

text \<open>
  What the module reads from outside: the two environment variables (lines 8-9),
  the answers of the three services, the clock, and the two library functions
  whose tables are not reproduced here (\<^verbatim>\<open>datetime.fromisoformat\<close>, with
  \<open>None\<close> for its \<^verbatim>\<open>ValueError\<close>, and \<^verbatim>\<open>repr\<close> of a \<^verbatim>\<open>str\<close>).
  \<^verbatim>\<open>boto3.client\<close> (lines 13-14) only builds a local object and sends nothing.
\<close>

record env =
  DISCORD_WEBHOOK :: "string option"
  SSM_DOCUMENT :: "string option"
  describe_tags :: "json \<Rightarrow> error + tag list"
  send_command :: "json \<Rightarrow> string option \<Rightarrow> error option"
  http_request :: "string \<Rightarrow> json \<Rightarrow> error option"
  fromisoformat :: "string \<Rightarrow> datetime option"
  now_utc_us :: int
  local_offset_us :: int
  utcnow_isoformat :: string
  repr_str :: "string \<Rightarrow> string"

definition bind_err :: "error + 'a \<Rightarrow> ('a \<Rightarrow> error + 'b) \<Rightarrow> error + 'b" where
  "bind_err m f = (case m of Inl e \<Rightarrow> Inl e | Inr x \<Rightarrow> f x)"

section \<open>Python primitives used by the handler\<close>

text \<open>\<^verbatim>\<open>d.get(k, default)\<close>: only a dict has the method.\<close>

definition py_get :: "json \<Rightarrow> string \<Rightarrow> json \<Rightarrow> error + json" where
  "py_get d k dflt =
     (case d of
        JDict kvs \<Rightarrow> (case map_of kvs k of None \<Rightarrow> Inr dflt | Some v \<Rightarrow> Inr v)
      | _ \<Rightarrow> Inl AttributeError)"

text \<open>
  \<^verbatim>\<open>x[0]\<close>: the first element of a list or the first character of a string
  (\<^verbatim>\<open>IndexError\<close> when empty), \<^verbatim>\<open>KeyError\<close> on a decoded JSON object, whose keys
  are strings, \<^verbatim>\<open>TypeError\<close> on anything else.
\<close>

definition py_item0 :: "json \<Rightarrow> error + json" where
  "py_item0 x =
     (case x of
        JList [] \<Rightarrow> Inl IndexError
      | JList (y # ys) \<Rightarrow> Inr y
      | JStr [] \<Rightarrow> Inl IndexError
      | JStr (c # cs) \<Rightarrow> Inr (JStr [c])
      | JDict kvs \<Rightarrow> Inl KeyError
      | _ \<Rightarrow> Inl TypeError)"

text \<open>
  \<^verbatim>\<open>str.lower()\<close> on the ASCII letters. Python also lowers letters beyond ASCII;
  none of them becomes one of \<open>t\<close>, \<open>r\<close>, \<open>u\<close>, \<open>e\<close>, so the comparison with
  \<^verbatim>\<open>'true'\<close> on line 33 is not affected.
\<close>

definition lower_char :: "char \<Rightarrow> char" where
  "lower_char c =
     (case map_of (zip ''ABCDEFGHIJKLMNOPQRSTUVWXYZ'' ''abcdefghijklmnopqrstuvwxyz'') c of
        None \<Rightarrow> c
      | Some l \<Rightarrow> l)"

definition py_lower :: "string \<Rightarrow> string" where
  "py_lower s = map lower_char s"

text \<open>\<^verbatim>\<open>s.replace('Z', '+00:00')\<close>: every occurrence; only a \<^verbatim>\<open>str\<close> has the method.\<close>

definition py_replace_Z :: "json \<Rightarrow> error + string" where
  "py_replace_Z v =
     (case v of
        JStr s \<Rightarrow> Inr (concat (map (\<lambda>c. if c = CHR ''Z'' then ''+00:00'' else [c]) s))
      | _ \<Rightarrow> Inl AttributeError)"

text \<open>Decimal printing of an \<^verbatim>\<open>int\<close>.\<close>

fun digits :: "nat \<Rightarrow> string" where
  "digits n =
     (if n < 10 then [''0123456789'' ! n]
      else digits (n div 10) @ [''0123456789'' ! (n mod 10)])"

definition str_int :: "int \<Rightarrow> string" where
  "str_int i = (if i < 0 then CHR ''-'' # digits (nat (- i)) else digits (nat i))"

fun join_comma :: "string list \<Rightarrow> string" where
  "join_comma [] = []"
| "join_comma [x] = x"
| "join_comma (x # y # ys) = x @ '', '' @ join_comma (y # ys)"

text \<open>\<^verbatim>\<open>repr\<close> of a decoded JSON value, given \<^verbatim>\<open>repr\<close> on strings.\<close>

primrec py_repr :: "(string \<Rightarrow> string) \<Rightarrow> json \<Rightarrow> string" where
  "py_repr r JNull = ''None''"
| "py_repr r (JBool b) = (if b then ''True'' else ''False'')"
| "py_repr r (JNum n) = str_int n"
| "py_repr r (JStr s) = r s"
| "py_repr r (JList xs) = ''['' @ join_comma (map (py_repr r) xs) @ '']''"
| "py_repr r (JDict kvs) =
     ''{'' @ join_comma (map (\<lambda>kv. r (fst kv) @ '': '' @ snd kv)
                              (map (map_prod id (py_repr r)) kvs)) @ ''}''"

text \<open>What an f-string prints for \<^verbatim>\<open>{v}\<close>: \<^verbatim>\<open>str(v)\<close>.\<close>

definition py_str :: "env \<Rightarrow> json \<Rightarrow> string" where
  "py_str env v = (case v of JStr s \<Rightarrow> s | _ \<Rightarrow> py_repr (repr_str env) v)"

definition str_opt :: "string option \<Rightarrow> string" where
  "str_opt v = (case v of None \<Rightarrow> ''None'' | Some s \<Rightarrow> s)"

text \<open>
  \<^verbatim>\<open>datetime.now(tz)\<close> and the subtraction of two datetimes, in microseconds.
  Python refuses to subtract a naive from an aware value.
\<close>

definition datetime_now :: "env \<Rightarrow> int option \<Rightarrow> datetime" where
  "datetime_now env tz =
     (case tz of
        None \<Rightarrow> \<lparr>wall_us = now_utc_us env + local_offset_us env, utcoffset = None\<rparr>
      | Some off \<Rightarrow> \<lparr>wall_us = now_utc_us env + off, utcoffset = Some off\<rparr>)"

definition datetime_sub :: "datetime \<Rightarrow> datetime \<Rightarrow> error + int" where
  "datetime_sub a b =
     (case (utcoffset a, utcoffset b) of
        (None, None) \<Rightarrow> Inr (wall_us a - wall_us b)
      | (Some oa, Some ob) \<Rightarrow> Inr ((wall_us a - oa) - (wall_us b - ob))
      | _ \<Rightarrow> Inl TypeError)"

text \<open>
  \<^verbatim>\<open>td.total_seconds()\<close> divides the microseconds of the difference by \<^verbatim>\<open>10**6\<close>
  with Python's true division of integers, whose result is the double nearest to
  the quotient, ties going to the even significand. For a quotient \<open>n / d\<close> of
  positive integers, \<open>floor_log2 n d\<close> is the exponent of its leading bit and the
  double is \<open>m * 2 ^ e\<close> for the pair \<open>(m, e)\<close> that \<open>true_div\<close> returns, with
  a significand \<open>m\<close> of 53 bits. A \<^verbatim>\<open>timedelta\<close> spans less than \<^verbatim>\<open>10**9\<close> days,
  so the exponent range of a double plays no role.
\<close>

function bit_length :: "int \<Rightarrow> nat" where
  "bit_length n = (if n \<le> 0 then 0 else Suc (bit_length (n div 2)))"
  by pat_completeness auto
termination
  by (relation "measure nat") auto

definition floor_log2 :: "int \<Rightarrow> int \<Rightarrow> int" where
  "floor_log2 n d =
     (if d \<le> n then int (bit_length (n div d)) - 1
      else - int (bit_length ((d - 1) div n)))"

definition round_half_even :: "int \<Rightarrow> int \<Rightarrow> int" where
  "round_half_even n d =
     (let q = n div d; r = n mod d
      in if 2 * r < d then q
         else if d < 2 * r then q + 1
         else if even q then q else q + 1)"

definition true_div :: "int \<Rightarrow> int \<Rightarrow> int \<times> int" where
  "true_div n d =
     (let e = floor_log2 n d - 52
      in (if 0 \<le> e then round_half_even n (d * 2 ^ nat e)
          else round_half_even (n * 2 ^ nat (- e)) d, e))"

text \<open>\<^verbatim>\<open>int(x)\<close> for the double \<open>m * 2 ^ e\<close>: the fraction is dropped.\<close>

definition int_of_float :: "int \<times> int \<Rightarrow> int" where
  "int_of_float x =
     (case x of (m, e) \<Rightarrow> if 0 \<le> e then m * 2 ^ nat e else m div 2 ^ nat (- e))"

text \<open>
  \<^verbatim>\<open>int(td.total_seconds())\<close> for a difference of \<open>us\<close> microseconds. Rounding
  and truncation towards zero are the same on both sides of zero.
\<close>

definition int_total_seconds :: "int \<Rightarrow> int" where
  "int_total_seconds us =
     (if us = 0 then 0
      else if us < 0 then - int_of_float (true_div (- us) 1000000)
      else int_of_float (true_div us 1000000))"

section \<open>The handler\<close>

text \<open>Line 19, from \<^verbatim>\<open>detail\<close>.\<close>

definition state_reason_of :: "json \<Rightarrow> error + json" where
  "state_reason_of detail =
     bind_err (py_get detail ''state'' (JDict [])) (\<lambda>state.
       py_get state ''reason'' (JStr ''N/A''))"

text \<open>Lines 22-24.\<close>

definition downtime_duration_of :: "env \<Rightarrow> json \<Rightarrow> error + int" where
  "downtime_duration_of env event =
     bind_err (py_get event ''time'' JNull) (\<lambda>event_time_str.
     bind_err (py_replace_Z event_time_str) (\<lambda>s.
     bind_err (case fromisoformat env s of None \<Rightarrow> Inl ValueError | Some t \<Rightarrow> Inr t)
       (\<lambda>event_time.
     bind_err (datetime_sub (datetime_now env (utcoffset event_time)) event_time) (\<lambda>us.
       Inr (int_total_seconds us)))))"

text \<open>Lines 27-28, from \<^verbatim>\<open>detail\<close>.\<close>

definition instance_id_of :: "json \<Rightarrow> error + json" where
  "instance_id_of detail =
     bind_err (py_get detail ''configuration'' (JDict [])) (\<lambda>configuration.
     bind_err (py_get configuration ''metrics'' (JList [JDict []])) (\<lambda>metrics.
     bind_err (py_item0 metrics) (\<lambda>m.
     bind_err (py_get m ''metricStat'' (JDict [])) (\<lambda>metricStat.
     bind_err (py_get metricStat ''metric'' (JDict [])) (\<lambda>metric.
     bind_err (py_get metric ''dimensions'' (JDict [])) (\<lambda>dimensions.
       py_get dimensions ''InstanceId'' (JStr ''Unknown'')))))))"

text \<open>Lines 18-28: the first exception ends the extraction.\<close>

definition parse_event :: "env \<Rightarrow> json \<Rightarrow> error + (json \<times> int \<times> json)" where
  "parse_event env event =
     bind_err (py_get event ''detail'' (JDict [])) (\<lambda>detail.
     bind_err (state_reason_of detail) (\<lambda>state_reason.
     bind_err (downtime_duration_of env event) (\<lambda>downtime_duration.
     bind_err (instance_id_of detail) (\<lambda>instance_id.
       Inr (state_reason, downtime_duration, instance_id)))))"

text \<open>Line 33: \<^verbatim>\<open>any(...)\<close> over the tags, left to right.\<close>

fun is_maintenance :: "tag list \<Rightarrow> bool" where
  "is_maintenance [] = False"
| "is_maintenance (t # ts) =
     ((Key t = ''Maintenance'' \<and> py_lower (Value t) = ''true'') \<or> is_maintenance ts)"

text \<open>Lines 59-71.\<close>

definition payload :: "env \<Rightarrow> json \<Rightarrow> string \<Rightarrow> string \<Rightarrow> int \<Rightarrow> json" where
  "payload env instance_id title description color =
     JDict [
       (''username'', JStr ''Cloud Janitor''),
       (''embeds'', JList [JDict [
          (''title'', JStr title),
          (''description'', JStr description),
          (''color'', JNum color),
          (''fields'', JList [
             JDict [(''name'', JStr ''Instance ID''),
                    (''value'', JStr (''`'' @ py_str env instance_id @ ''`'')),
                    (''inline'', JBool True)],
             JDict [(''name'', JStr ''Region''),
                    (''value'', JStr ''`ap-southeast-1`''),
                    (''inline'', JBool True)]]),
          (''timestamp'', JStr (utcnow_isoformat env))]])]"

text \<open>
  Lines 57-73. \<^verbatim>\<open>not DISCORD_WEBHOOK\<close> holds for \<^verbatim>\<open>None\<close> and for the empty string.
  The result is the calls made and the exception raised, if any.
\<close>

definition send_discord ::
  "env \<Rightarrow> json \<Rightarrow> string \<Rightarrow> string \<Rightarrow> int \<Rightarrow> call list \<times> error option" where
  "send_discord env instance_id title description color =
     (case DISCORD_WEBHOOK env of
        None \<Rightarrow> ([SendDiscord instance_id title description color], None)
      | Some url \<Rightarrow>
          if url = [] then ([SendDiscord instance_id title description color], None)
          else ([SendDiscord instance_id title description color,
                 HttpPost url (payload env instance_id title description color)],
                http_request env url (payload env instance_id title description color)))"

definition skip_title :: string where
  "skip_title =
     [CHR 0xE2, CHR 0x9A, CHR 0xA0, CHR 0xEF, CHR 0xB8, CHR 0x8F]
       @ '' **Maintenance Mode Detected**''"

definition skip_description :: "env \<Rightarrow> json \<Rightarrow> string" where
  "skip_description env state_reason =
     ''**Reason:** '' @ py_str env state_reason @ [CHR 0x0A]
       @ ''**Action:** Automation skipped to avoid interference.''"

definition success_title :: string where
  "success_title =
     [CHR 0xF0, CHR 0x9F, CHR 0x9A, CHR 0xA8] @ '' **Auto-Remediation Triggered**''"

definition success_description :: "env \<Rightarrow> json \<Rightarrow> int \<Rightarrow> string" where
  "success_description env state_reason downtime_duration =
     ''**Cause of Downtime:** `'' @ py_str env state_reason @ ''`'' @ [CHR 0x0A]
       @ ''**Time Since Detection:** `'' @ str_int downtime_duration @ '' seconds`''
       @ [CHR 0x0A]
       @ ''**Remediation:** Triggered `'' @ str_opt (SSM_DOCUMENT env) @ ''` successfully.''"

definition status :: "string \<Rightarrow> json" where
  "status s = JDict [(''status'', JStr s)]"

text \<open>
  Lines 12-55. The result is the list of calls made, in order, and either the
  exception that left the handler or the value it returned.
\<close>

definition lambda_handler :: "env \<Rightarrow> json \<Rightarrow> call list \<times> (error + json)" where
  "lambda_handler env event =
     (case parse_event env event of
        Inl e \<Rightarrow> ([], Inl e)
      | Inr (state_reason, downtime_duration, instance_id) \<Rightarrow>
          (case describe_tags env instance_id of
             Inl e \<Rightarrow> ([DescribeTags instance_id], Inl e)
           | Inr tags \<Rightarrow>
               if is_maintenance tags then
                 (case send_discord env instance_id skip_title
                         (skip_description env state_reason) 16776960 of
                    (calls, Some e) \<Rightarrow> (DescribeTags instance_id # calls, Inl e)
                  | (calls, None) \<Rightarrow>
                      (DescribeTags instance_id # calls, Inr (status ''skipped'')))
               else
                 (case send_command env instance_id (SSM_DOCUMENT env) of
                    Some e \<Rightarrow>
                      ([DescribeTags instance_id,
                        SendCommand instance_id (SSM_DOCUMENT env)], Inl e)
                  | None \<Rightarrow>
                      (case send_discord env instance_id success_title
                              (success_description env state_reason downtime_duration)
                              15158332 of
                         (calls, Some e) \<Rightarrow>
                           (DescribeTags instance_id
                              # SendCommand instance_id (SSM_DOCUMENT env) # calls, Inl e)
                       | (calls, None) \<Rightarrow>
                           (DescribeTags instance_id
                              # SendCommand instance_id (SSM_DOCUMENT env) # calls,
                            Inr (status ''success''))))))"

section \<open>Missing fields\<close>

text \<open>
  A field addressed by a path of keys (and first list elements) is missing from
  a value when, walking the path through objects, a key is not there.
\<close>

datatype seg = Get string | Item0

fun missing :: "seg list \<Rightarrow> json \<Rightarrow> bool" where
  "missing [] v = False"
| "missing (Get k # p) (JDict kvs) =
     (case map_of kvs k of None \<Rightarrow> True | Some v \<Rightarrow> missing p v)"
| "missing (Item0 # p) (JList (x # xs)) = missing p x"
| "missing (s # p) v = False"

definition reason_path :: "seg list" where
  "reason_path = [Get ''detail'', Get ''state'', Get ''reason'']"

definition instance_id_path :: "seg list" where
  "instance_id_path =
     [Get ''detail'', Get ''configuration'', Get ''metrics'', Item0,
      Get ''metricStat'', Get ''metric'', Get ''dimensions'', Get ''InstanceId'']"

section \<open>Example inputs\<close>

text \<open>
  The alarm of the specification's scenario, and a world around it: the event was
  raised at 2024-01-01T00:00:00Z and the handler runs 90.5 seconds later.
\<close>

definition event_of :: "(string \<times> json) list \<Rightarrow> (string \<times> json) list \<Rightarrow> json" where
  "event_of outer dims =
     JDict (outer @ [(''detail'', JDict [
       (''state'', JDict [(''reason'', JStr ''Instance reachability check failed'')]),
       (''configuration'', JDict [(''metrics'', JList [JDict [(''metricStat'',
          JDict [(''metric'', JDict [(''dimensions'', JDict dims)])])]])])])])"

definition alarm_event :: json where
  "alarm_event =
     event_of [(''time'', JStr ''2024-01-01T00:00:00Z'')] [(''InstanceId'', JStr ''i-abc123'')]"

definition empty_metrics_event :: json where
  "empty_metrics_event =
     JDict [(''time'', JStr ''2024-01-01T00:00:00Z''),
            (''detail'', JDict [
               (''state'', JDict [(''reason'', JStr ''Instance reachability check failed'')]),
               (''configuration'', JDict [(''metrics'', JList [])])])]"

definition world :: "tag list \<Rightarrow> error option \<Rightarrow> env" where
  "world tags cmd =
     \<lparr>DISCORD_WEBHOOK = Some ''https://discord.example/api/webhooks/1'',
      SSM_DOCUMENT = Some ''RestartService'',
      describe_tags = (\<lambda>i. Inr tags),
      send_command = (\<lambda>i doc. cmd),
      http_request = (\<lambda>url body. None),
      fromisoformat = (\<lambda>s. if s = ''2024-01-01T00:00:00+00:00''
                              then Some \<lparr>wall_us = 1704067200000000, utcoffset = Some 0\<rparr>
                              else None),
      now_utc_us = 1704067290500000,
      local_offset_us = 28800000000,
      utcnow_isoformat = ''2024-01-01T00:01:30.500000'',
      repr_str = (\<lambda>s. [CHR 0x27] @ s @ [CHR 0x27])\<rparr>"

text \<open>The same world with a webhook endpoint that refuses the connection.\<close>

definition webhook_down :: "tag list \<Rightarrow> env" where
  "webhook_down tags =
     (world tags None)\<lparr>http_request := (\<lambda>url body. Some (HTTPError ''connection refused''))\<rparr>"

section \<open>The maintenance check\<close>

lemma is_maintenance_iff:
  "is_maintenance tags \<longleftrightarrow>
     (\<exists>t \<in> set tags. Key t = ''Maintenance'' \<and> py_lower (Value t) = ''true'')"
  by (induction tags) auto

text \<open>
  The values that lower to \<open>true\<close> are the sixteen spellings of the word in
  upper and lower case letters.
\<close>

lemma lower_char_cases:
  "lower_char c = CHR ''t'' \<longleftrightarrow> c = CHR ''t'' \<or> c = CHR ''T''"
  "lower_char c = CHR ''r'' \<longleftrightarrow> c = CHR ''r'' \<or> c = CHR ''R''"
  "lower_char c = CHR ''u'' \<longleftrightarrow> c = CHR ''u'' \<or> c = CHR ''U''"
  "lower_char c = CHR ''e'' \<longleftrightarrow> c = CHR ''e'' \<or> c = CHR ''E''"
  by (auto simp: lower_char_def split: if_splits)

lemma py_lower_true_iff:
  "py_lower v = ''true'' \<longleftrightarrow>
     (\<exists>a b c d. v = [a, b, c, d]
        \<and> (a = CHR ''t'' \<or> a = CHR ''T'') \<and> (b = CHR ''r'' \<or> b = CHR ''R'')
        \<and> (c = CHR ''u'' \<or> c = CHR ''U'') \<and> (d = CHR ''e'' \<or> d = CHR ''E''))"
proof -
  have "py_lower v = ''true'' \<longleftrightarrow>
          (\<exists>a b c d. v = [a, b, c, d] \<and> lower_char a = CHR ''t'' \<and> lower_char b = CHR ''r''
             \<and> lower_char c = CHR ''u'' \<and> lower_char d = CHR ''e'')"
    unfolding py_lower_def by (auto simp: map_eq_Cons_conv)
  then show ?thesis by (simp only: lower_char_cases)
qed

text \<open>
  C2. For every list of tags returned for the resource, the maintenance check is
  true exactly when some tag of the list has the key \<open>Maintenance\<close> and a value
  whose lowercase form is \<open>true\<close>; for the empty list it is false.
\<close>

theorem maintenance_check_iff:
  "(is_maintenance tags \<longleftrightarrow>
      (\<exists>t \<in> set tags. Key t = ''Maintenance'' \<and> py_lower (Value t) = ''true''))
   \<and> \<not> is_maintenance []"
proof (induction tags)
  case Nil
  show ?case by simp
next
  case (Cons t ts)
  then show ?case by auto
qed

theorem maintenance_check_iff_witness:
  "is_maintenance [\<lparr>Key = ''Name'', Value = ''web-1''\<rparr>, \<lparr>Key = ''Maintenance'', Value = ''TRue''\<rparr>]
   \<and> \<not> is_maintenance [\<lparr>Key = ''maintenance'', Value = ''true''\<rparr>,
                         \<lparr>Key = ''Maintenance'', Value = ''yes''\<rparr>]"
  using maintenance_check_iff
          [of "[\<lparr>Key = ''Name'', Value = ''web-1''\<rparr>, \<lparr>Key = ''Maintenance'', Value = ''TRue''\<rparr>]"]
        maintenance_check_iff
          [of "[\<lparr>Key = ''maintenance'', Value = ''true''\<rparr>,
                \<lparr>Key = ''Maintenance'', Value = ''yes''\<rparr>]"]
  by (simp add: py_lower_def lower_char_def)

section \<open>Facts about the handler\<close>

lemma send_discord_filter:
  "send_discord env i t d c = (calls, x) \<Longrightarrow> filter is_SendDiscord calls = [SendDiscord i t d c]"
  by (auto simp: send_discord_def split: option.splits if_splits)

lemma send_discord_no_command:
  "send_discord env i t d c = (calls, x) \<Longrightarrow> \<not> list_ex is_SendCommand calls"
  by (auto simp: send_discord_def split: option.splits if_splits)

lemma status_neq: "status ''skipped'' \<noteq> status ''success''"
  by (simp add: status_def)

lemma handler_parse_error:
  "parse_event env event = Inl e \<Longrightarrow> lambda_handler env event = ([], Inl e)"
  by (simp add: lambda_handler_def)

lemma handler_maintenance:
  assumes "parse_event env event = Inr (r, d, i)" "describe_tags env i = Inr tags" "is_maintenance tags"
  shows "lambda_handler env event =
           (DescribeTags i # fst (send_discord env i skip_title (skip_description env r) 16776960),
            case snd (send_discord env i skip_title (skip_description env r) 16776960) of
              None \<Rightarrow> Inr (status ''skipped'') | Some e \<Rightarrow> Inl e)"
  using assms by (simp add: lambda_handler_def split: prod.splits option.splits)

lemma handler_command_error:
  assumes "parse_event env event = Inr (r, d, i)" "describe_tags env i = Inr tags"
    "\<not> is_maintenance tags" "send_command env i (SSM_DOCUMENT env) = Some e"
  shows "lambda_handler env event = ([DescribeTags i, SendCommand i (SSM_DOCUMENT env)], Inl e)"
  using assms by (simp add: lambda_handler_def)

lemma handler_remediated:
  assumes "parse_event env event = Inr (r, d, i)" "describe_tags env i = Inr tags"
    "\<not> is_maintenance tags" "send_command env i (SSM_DOCUMENT env) = None"
  shows "lambda_handler env event =
           (DescribeTags i # SendCommand i (SSM_DOCUMENT env)
              # fst (send_discord env i success_title (success_description env r d) 15158332),
            case snd (send_discord env i success_title (success_description env r d) 15158332) of
              None \<Rightarrow> Inr (status ''success'') | Some e \<Rightarrow> Inl e)"
  using assms by (simp add: lambda_handler_def split: prod.splits option.splits)

lemma handler_tags_error:
  assumes "parse_event env event = Inr (r, d, i)" "describe_tags env i = Inl e"
  shows "lambda_handler env event = ([DescribeTags i], Inl e)"
  using assms by (simp add: lambda_handler_def)

lemma handler_completed:
  assumes "lambda_handler env event = (calls, Inr v)"
  obtains (skipped) r d i tags cs where
      "parse_event env event = Inr (r, d, i)" "describe_tags env i = Inr tags"
      "is_maintenance tags"
      "send_discord env i skip_title (skip_description env r) 16776960 = (cs, None)"
      "calls = DescribeTags i # cs" "v = status ''skipped''"
  | (success) r d i tags cs where
      "parse_event env event = Inr (r, d, i)" "describe_tags env i = Inr tags"
      "\<not> is_maintenance tags" "send_command env i (SSM_DOCUMENT env) = None"
      "send_discord env i success_title (success_description env r d) 15158332 = (cs, None)"
      "calls = DescribeTags i # SendCommand i (SSM_DOCUMENT env) # cs" "v = status ''success''"
proof (cases "parse_event env event")
  case (Inl e)
  with assms show ?thesis by (simp add: handler_parse_error)
next
  case (Inr ctx)
  obtain r d i where ctx: "ctx = (r, d, i)" by (cases ctx)
  note p = Inr [unfolded ctx]
  show ?thesis
  proof (cases "describe_tags env i")
    case (Inl e)
    with assms handler_tags_error [OF p Inl] show ?thesis by simp
  next
    case tags: (Inr tags)
    show ?thesis
    proof (cases "is_maintenance tags")
      case True
      obtain cs x where sd: "send_discord env i skip_title (skip_description env r) 16776960 = (cs, x)"
        by (cases "send_discord env i skip_title (skip_description env r) 16776960")
      from assms handler_maintenance [OF p tags True] sd
      have "calls = DescribeTags i # cs" "v = status ''skipped''" "x = None"
        by (auto split: option.splits)
      with p tags True sd show ?thesis by (intro skipped) auto
    next
      case False
      show ?thesis
      proof (cases "send_command env i (SSM_DOCUMENT env)")
        case (Some e)
        with assms handler_command_error [OF p tags False Some] show ?thesis by simp
      next
        case None
        obtain cs x where sd: "send_discord env i success_title (success_description env r d) 15158332 = (cs, x)"
          by (cases "send_discord env i success_title (success_description env r d) 15158332")
        from assms handler_remediated [OF p tags False None] sd
        have "calls = DescribeTags i # SendCommand i (SSM_DOCUMENT env) # cs" "v = status ''success''"
             "x = None"
          by (auto split: option.splits)
        with p tags False None sd show ?thesis by (intro success) auto
      qed
    qed
  qed
qed

text \<open>
  Below \<open>2 ^ 34\<close> seconds (about 544 years) the double is so close to the quotient
  that its integer part is the quotient's; from there on the two can differ by one.
\<close>

declare bit_length.simps [simp del]

lemma bit_length_le: "n < 2 ^ j \<Longrightarrow> bit_length n \<le> j"
proof (induction j arbitrary: n)
  case 0
  then show ?case by (simp add: bit_length.simps [of n])
next
  case (Suc j)
  show ?case
  proof (cases "n \<le> 0")
    case True
    then show ?thesis by (simp add: bit_length.simps [of n])
  next
    case False
    from Suc.prems have "n div 2 < 2 ^ j" by simp
    then have "bit_length (n div 2) \<le> j" by (rule Suc.IH)
    with False show ?thesis by (simp add: bit_length.simps [of n])
  qed
qed

lemma floor_log2_le:
  assumes "0 < d" "0 < n" "n < d * 2 ^ 34"
  shows "floor_log2 n d \<le> 33"
proof (cases "d \<le> n")
  case True
  have "d * (n div d) \<le> n"
    using mult_div_mod_eq [of d n] pos_mod_sign [OF assms(1), of n] by linarith
  with assms(3) have "d * (n div d) < d * 2 ^ 34" by linarith
  with assms(1) have "n div d < 2 ^ 34" by (simp only: mult_less_cancel_left_pos)
  then have "bit_length (n div d) \<le> 34" by (rule bit_length_le)
  with True show ?thesis by (simp add: floor_log2_def)
next
  case False
  then show ?thesis by (simp add: floor_log2_def)
qed

lemma round_half_even_cases:
  "round_half_even a d = a div d \<or>
   (round_half_even a d = a div d + 1 \<and> d \<le> 2 * (a mod d))"
  by (auto simp: round_half_even_def Let_def)

lemma round_then_truncate:
  fixes n :: int and s :: nat
  assumes n: "0 \<le> n" and s: "19 \<le> s"
  shows "round_half_even (n * 2 ^ s) 1000000 div 2 ^ s = n div 1000000"
proof -
  define P :: int where "P = 2 ^ s"
  define N where "N = n div 1000000"
  define r where "r = n mod 1000000"
  define A where "A = n * P"
  define t where "t = A div 1000000"
  define u where "u = A mod 1000000"
  define m where "m = round_half_even A 1000000"
  have "(2::int) ^ 19 \<le> 2 ^ s" using s by (rule power_increasing) simp
  then have P: "524288 \<le> P" by (simp add: P_def)
  have n': "n = 1000000 * N + r" and r: "0 \<le> r" "r < 1000000"
    by (simp_all add: N_def r_def)
  have A1: "A = 1000000 * (N * P) + r * P"
    by (simp add: A_def n' algebra_simps)
  have rP: "r * P \<le> 999999 * P" "0 \<le> r * P"
    using r P by (simp_all add: mult_right_mono)
  have A2: "A = 1000000 * t + u" and u: "0 \<le> u" "u < 1000000"
    by (simp_all add: t_def u_def)
  have m: "m = t \<or> (m = t + 1 \<and> 1000000 \<le> 2 * u)"
    using round_half_even_cases [of A 1000000] by (simp add: m_def t_def u_def)
  have NP: "P * N = N * P" by (simp add: mult.commute)
  have lo: "0 \<le> m - P * N" using m A1 A2 u rP unfolding NP by linarith
  have hi: "m - P * N < P" using m A1 A2 u rP P unfolding NP by linarith
  have "m = P * N + (m - P * N)" by simp
  from int_div_pos_eq [OF this lo hi] have "m div P = N" .
  then show ?thesis by (simp add: m_def A_def P_def N_def)
qed

lemma int_of_float_true_div:
  assumes "0 < n" "n < 2 ^ 34 * 1000000"
  shows "int_of_float (true_div n 1000000) = n div 1000000"
proof -
  define k where "k = floor_log2 n 1000000"
  define s where "s = nat (52 - k)"
  from assms have "k \<le> 33"
    unfolding k_def by (intro floor_log2_le) simp_all
  then have e: "k - 52 < 0" "nat (- (k - 52)) = s" "nat (52 - k) = s" and s: "19 \<le> s"
    by (simp_all add: s_def)
  have "int_of_float (true_div n 1000000)
          = round_half_even (n * 2 ^ s) 1000000 div 2 ^ s"
    using e by (simp add: int_of_float_def true_div_def Let_def k_def [symmetric])
  also have "\<dots> = n div 1000000" using assms(1) s by (intro round_then_truncate) simp_all
  finally show ?thesis .
qed

lemma int_total_seconds_exact:
  assumes "\<bar>us\<bar> < 2 ^ 34 * 1000000"
  shows "int_total_seconds us = (if us < 0 then - ((- us) div 1000000) else us div 1000000)"
proof -
  consider "us = 0" | "0 < us" | "us < 0" by linarith
  then show ?thesis
  proof cases
    case 1
    then show ?thesis by (simp add: int_total_seconds_def)
  next
    case 2
    with assms have "us < 2 ^ 34 * 1000000" by simp
    from int_of_float_true_div [OF 2 this] 2 show ?thesis
      by (simp add: int_total_seconds_def)
  next
    case 3
    with assms have "0 < - us" "- us < 2 ^ 34 * 1000000" by simp_all
    from int_of_float_true_div [OF this] 3 show ?thesis
      by (simp add: int_total_seconds_def)
  qed
qed

lemma bit_length_numeral [simp]:
  "bit_length 0 = 0"
  "bit_length 1 = 1"
  "bit_length (numeral (Num.Bit0 k)) = Suc (bit_length (numeral k))"
  "bit_length (numeral (Num.Bit1 k)) = Suc (bit_length (numeral k))"
  by (simp_all add: bit_length.simps [of 0] bit_length.simps [of 1]
        bit_length.simps [of "numeral (Num.Bit0 k)"] bit_length.simps [of "numeral (Num.Bit1 k)"])

text \<open>
  An event stamped 1000-01-01T00:00:00.500001Z and handled at
  2024-01-01T00:01:30.5Z is 32314291289.999999 seconds old; the nearest double is
  32314291290.
\<close>

lemma int_total_seconds_far: "int_total_seconds 32314291289999999 = 32314291290"
  by (simp add: int_total_seconds_def true_div_def floor_log2_def round_half_even_def
        int_of_float_def Let_def)

lemma int_total_seconds_trunc:
  assumes "\<bar>us\<bar> < 2 ^ 34 * 1000000"
  shows "int_total_seconds us =
           (if 0 \<le> us then \<lfloor>real_of_int us / 1000000\<rfloor> else \<lceil>real_of_int us / 1000000\<rceil>)"
proof (cases "0 \<le> us")
  case True
  have "\<lfloor>real_of_int us / real_of_int 1000000\<rfloor> = us div 1000000"
    by (rule floor_divide_of_int_eq)
  with True show ?thesis by (simp add: int_total_seconds_exact [OF assms])
next
  case False
  have "\<lfloor>real_of_int (- us) / real_of_int 1000000\<rfloor> = (- us) div 1000000"
    by (rule floor_divide_of_int_eq)
  then have "\<lceil>real_of_int us / 1000000\<rceil> = - ((- us) div 1000000)"
    by (simp add: ceiling_def)
  with False show ?thesis by (simp add: int_total_seconds_exact [OF assms])
qed

lemma datetime_sub_now:
  "datetime_sub (datetime_now env (utcoffset t)) t =
     Inr (case utcoffset t of
            None \<Rightarrow> now_utc_us env + local_offset_us env - wall_us t
          | Some off \<Rightarrow> now_utc_us env - (wall_us t - off))"
  by (simp add: datetime_sub_def datetime_now_def split: option.splits)

lemma parse_event_downtime:
  "parse_event env event = Inr (r, d, i) \<Longrightarrow> downtime_duration_of env event = Inr d"
  by (auto simp: parse_event_def bind_err_def split: sum.splits)

lemma handler_success_notification:
  assumes "lambda_handler env event = (calls, Inr (status ''success''))"
  shows "\<exists>r d i. parse_event env event = Inr (r, d, i) \<and>
           SendDiscord i success_title (success_description env r d) 15158332 \<in> set calls"
  using assms
proof (cases rule: handler_completed)
  case (skipped r d i tags cs)
  then show ?thesis by (simp add: status_def)
next
  case (success r d i tags cs)
  from send_discord_filter [OF success(5)]
  have "SendDiscord i success_title (success_description env r d) 15158332
          \<in> set (filter is_SendDiscord cs)" by simp
  then have "SendDiscord i success_title (success_description env r d) 15158332 \<in> set cs"
    by simp
  with success show ?thesis by auto
qed

lemma missing_GetE:
  assumes "missing (Get k # p) v"
  obtains kvs where "v = JDict kvs" "map_of kvs k = None"
  | kvs v' where "v = JDict kvs" "map_of kvs k = Some v'" "missing p v'"
  using assms by (cases v) (auto split: option.splits)

lemma missing_Item0E:
  assumes "missing (Item0 # p) v"
  obtains x xs where "v = JList (x # xs)" "missing p x"
proof (cases v)
  case (JList ys)
  with assms that show ?thesis by (cases ys) auto
qed (use assms in auto)

lemma missing_NilE: "missing [] v \<Longrightarrow> P"
  by simp

lemma missing_reason:
  "missing reason_path event \<Longrightarrow>
     \<exists>detail. py_get event ''detail'' (JDict []) = Inr detail
        \<and> state_reason_of detail = Inr (JStr ''N/A'')"
  unfolding reason_path_def
  by (auto simp: py_get_def state_reason_of_def bind_err_def simp del: missing.simps
           elim!: missing_NilE missing_GetE)

lemma missing_instance_id:
  "missing instance_id_path event \<Longrightarrow>
     \<exists>detail. py_get event ''detail'' (JDict []) = Inr detail
        \<and> instance_id_of detail = Inr (JStr ''Unknown'')"
  unfolding instance_id_path_def
  by (auto simp: py_get_def instance_id_of_def bind_err_def py_item0_def simp del: missing.simps
           elim!: missing_NilE missing_GetE missing_Item0E)

lemma parse_event_parts:
  "parse_event env event = Inr (r, d, i) \<longleftrightarrow>
     (\<exists>detail. py_get event ''detail'' (JDict []) = Inr detail
        \<and> state_reason_of detail = Inr r
        \<and> downtime_duration_of env event = Inr d
        \<and> instance_id_of detail = Inr i)"
  by (auto simp: parse_event_def bind_err_def split: sum.splits)

lemma state_reason_of_error: "state_reason_of detail = Inl e \<Longrightarrow> e = AttributeError"
  by (auto simp: state_reason_of_def bind_err_def py_get_def split: sum.splits json.splits option.splits)

section \<open>The example world\<close>

lemmas eval_defs = parse_event_def world_def alarm_event_def event_of_def bind_err_def py_get_def
  state_reason_of_def downtime_duration_of_def instance_id_of_def py_replace_Z_def datetime_sub_def
  datetime_now_def int_total_seconds_exact py_item0_def

lemma world_parse:
  "parse_event (world tags cmd) alarm_event
     = Inr (JStr ''Instance reachability check failed'', 90, JStr ''i-abc123'')"
  by (simp add: eval_defs)

lemma world_tags: "describe_tags (world tags cmd) i = Inr tags"
  by (simp add: world_def)

lemma world_command: "send_command (world tags cmd) i doc = cmd"
  by (simp add: world_def)

lemma world_notify: "snd (send_discord (world tags cmd) i t d c) = None"
  by (simp add: send_discord_def world_def)

lemma world_success:
  "snd (lambda_handler (world [] None) alarm_event) = Inr (status ''success'')"
proof -
  have "\<not> is_maintenance []" by simp
  from handler_remediated [OF world_parse world_tags this world_command]
  show ?thesis by (simp add: world_notify)
qed

section \<open>Maintenance mode\<close>

text \<open>
  C1. Let the event be parsed and the tag query answer. If some tag of the resource
  has the key \<open>Maintenance\<close> and a value that lowers to \<open>true\<close> (such as
  \<open>True\<close>), the handler dispatches no remediation command, and it returns
  \<open>{"status": "skipped"}\<close> unless the skip notification itself raises, in which
  case that exception leaves the handler. If instead the \<open>Maintenance\<close> tag has
  the value \<open>false\<close>, the maintenance check is false and the command dispatch is
  the handler's next call.
\<close>

theorem maintenance_tag_skips:
  assumes "parse_event env event = Inr (r, d, i)" and "describe_tags env i = Inr tags"
  shows "((\<exists>t \<in> set tags. Key t = ''Maintenance'' \<and> py_lower (Value t) = ''true'') \<longrightarrow>
            \<not> list_ex is_SendCommand (fst (lambda_handler env event)) \<and>
            snd (lambda_handler env event) =
              (case snd (send_discord env i skip_title (skip_description env r) 16776960) of
                 None \<Rightarrow> Inr (status ''skipped'') | Some e \<Rightarrow> Inl e))
       \<and> ((\<forall>t \<in> set tags. Key t = ''Maintenance'' \<longrightarrow> Value t = ''false'') \<longrightarrow>
            \<not> is_maintenance tags \<and>
            take 2 (fst (lambda_handler env event)) = [DescribeTags i, SendCommand i (SSM_DOCUMENT env)])"
proof (intro conjI impI)
  assume m: "\<exists>t \<in> set tags. Key t = ''Maintenance'' \<and> py_lower (Value t) = ''true''"
  then have im: "is_maintenance tags" by (simp add: is_maintenance_iff)
  note h = handler_maintenance [OF assms im]
  obtain calls x where sd: "send_discord env i skip_title (skip_description env r) 16776960 = (calls, x)"
    by (cases "send_discord env i skip_title (skip_description env r) 16776960")
  show "\<not> list_ex is_SendCommand (fst (lambda_handler env event))"
    using h sd send_discord_no_command [OF sd] by simp
  show "snd (lambda_handler env event) =
              (case snd (send_discord env i skip_title (skip_description env r) 16776960) of
                 None \<Rightarrow> Inr (status ''skipped'') | Some e \<Rightarrow> Inl e)"
    using h by simp
next
  assume f: "\<forall>t \<in> set tags. Key t = ''Maintenance'' \<longrightarrow> Value t = ''false''"
  show nm: "\<not> is_maintenance tags"
    using f by (auto simp: is_maintenance_iff py_lower_def lower_char_def)
  show "take 2 (fst (lambda_handler env event)) = [DescribeTags i, SendCommand i (SSM_DOCUMENT env)]"
  proof (cases "send_command env i (SSM_DOCUMENT env)")
    case None
    show ?thesis using handler_remediated [OF assms nm None] by simp
  next
    case (Some e)
    show ?thesis using handler_command_error [OF assms nm Some] by simp
  qed
qed

theorem maintenance_tag_skips_witness:
  "\<not> list_ex is_SendCommand
       (fst (lambda_handler (world [\<lparr>Key = ''Maintenance'', Value = ''True''\<rparr>] None) alarm_event))
   \<and> snd (lambda_handler (world [\<lparr>Key = ''Maintenance'', Value = ''True''\<rparr>] None) alarm_event)
        = Inr (status ''skipped'')
   \<and> take 2 (fst (lambda_handler (world [\<lparr>Key = ''Maintenance'', Value = ''false''\<rparr>] None) alarm_event))
        = [DescribeTags (JStr ''i-abc123''), SendCommand (JStr ''i-abc123'') (Some ''RestartService'')]"
proof -
  have p: "parse_event (world tags None) alarm_event
             = Inr (JStr ''Instance reachability check failed'', 90, JStr ''i-abc123'')" for tags
    by (simp add: eval_defs)
  have t: "describe_tags (world tags None) (JStr ''i-abc123'') = Inr tags" for tags
    by (simp add: world_def)
  show ?thesis
    using maintenance_tag_skips [OF p t, of "[\<lparr>Key = ''Maintenance'', Value = ''True''\<rparr>]"]
          maintenance_tag_skips [OF p t, of "[\<lparr>Key = ''Maintenance'', Value = ''false''\<rparr>]"]
    by (simp add: py_lower_def lower_char_def send_discord_def world_def)
qed

text \<open>
  When the webhook endpoint refuses the connection, the same event under a
  \<open>Maintenance = True\<close> tag does not return \<open>skipped\<close>: the exception of the
  POST leaves the handler.
\<close>

theorem maintenance_skip_counterexample:
  "parse_event (webhook_down [\<lparr>Key = ''Maintenance'', Value = ''True''\<rparr>]) alarm_event
     = Inr (JStr ''Instance reachability check failed'', 90, JStr ''i-abc123'')
   \<and> describe_tags (webhook_down [\<lparr>Key = ''Maintenance'', Value = ''True''\<rparr>]) (JStr ''i-abc123'')
       = Inr [\<lparr>Key = ''Maintenance'', Value = ''True''\<rparr>]
   \<and> py_lower ''True'' = ''true''
   \<and> snd (lambda_handler (webhook_down [\<lparr>Key = ''Maintenance'', Value = ''True''\<rparr>]) alarm_event)
       = Inl (HTTPError ''connection refused'')
   \<and> snd (lambda_handler (webhook_down [\<lparr>Key = ''Maintenance'', Value = ''True''\<rparr>]) alarm_event)
       \<noteq> Inr (status ''skipped'')"
proof -
  let ?w = "webhook_down [\<lparr>Key = ''Maintenance'', Value = ''True''\<rparr>]"
  have p: "parse_event ?w alarm_event
             = Inr (JStr ''Instance reachability check failed'', 90, JStr ''i-abc123'')"
    by (simp add: webhook_down_def eval_defs)
  have t: "describe_tags ?w (JStr ''i-abc123'') = Inr [\<lparr>Key = ''Maintenance'', Value = ''True''\<rparr>]"
    by (simp add: webhook_down_def world_def)
  have l: "py_lower ''True'' = ''true''"
    by (simp add: py_lower_def lower_char_def)
  then have m: "is_maintenance [\<lparr>Key = ''Maintenance'', Value = ''True''\<rparr>]"
    by simp
  have sd: "snd (send_discord ?w i ti d c) = Some (HTTPError ''connection refused'')" for i ti d c
    by (simp add: send_discord_def webhook_down_def world_def)
  from handler_maintenance [OF p t m]
  have "snd (lambda_handler ?w alarm_event) = Inl (HTTPError ''connection refused'')"
    by (simp add: sd)
  with p t l show ?thesis by simp
qed

section \<open>Notifications\<close>

text \<open>
  C3. Whenever the handler runs to completion, \<^verbatim>\<open>send_discord\<close> has been entered
  exactly once: with the skip message when the result is \<open>skipped\<close>, with the
  success message when it is \<open>success\<close>.
\<close>

theorem one_notification_per_completed_run:
  assumes "lambda_handler env event = (calls, Inr v)"
  shows "length (filter is_SendDiscord calls) = 1 \<and>
         (\<exists>i r d.
            (filter is_SendDiscord calls = [SendDiscord i skip_title (skip_description env r) 16776960]
               \<and> v = status ''skipped'')
          \<or> (filter is_SendDiscord calls
                = [SendDiscord i success_title (success_description env r d) 15158332]
               \<and> v = status ''success''))"
  using assms
proof (cases rule: handler_completed)
  case (skipped r d i tags cs)
  with send_discord_filter [OF skipped(4)] show ?thesis by auto
next
  case (success r d i tags cs)
  with send_discord_filter [OF success(5)] show ?thesis by auto
qed

theorem one_notification_per_completed_run_witness:
  "length (filter is_SendDiscord (fst (lambda_handler (world [] None) alarm_event))) = 1
   \<and> snd (lambda_handler (world [] None) alarm_event) = Inr (status ''success'')"
proof -
  have p: "parse_event (world [] None) alarm_event
             = Inr (JStr ''Instance reachability check failed'', 90, JStr ''i-abc123'')"
    by (simp add: eval_defs)
  have h: "lambda_handler (world [] None) alarm_event
             = (fst (lambda_handler (world [] None) alarm_event), Inr (status ''success''))"
    using world_success by (metis prod.collapse)
  show ?thesis
    using one_notification_per_completed_run [OF h] h by (metis snd_conv)
qed

text \<open>
  C6. With no webhook URL configured (the variable unset or empty),
  \<^verbatim>\<open>send_discord\<close> performs no HTTP request and raises nothing, whatever its
  arguments.
\<close>

theorem send_discord_without_webhook:
  assumes "DISCORD_WEBHOOK env = None \<or> DISCORD_WEBHOOK env = Some []"
  shows "send_discord env i t d c = ([SendDiscord i t d c], None)
         \<and> snd (send_discord env i t d c) = None
         \<and> \<not> list_ex is_HttpPost (fst (send_discord env i t d c))"
  using assms by (auto simp: send_discord_def)

theorem send_discord_without_webhook_witness:
  "snd (send_discord ((world [] None)\<lparr>DISCORD_WEBHOOK := None,
           http_request := (\<lambda>url body. Some (HTTPError ''unreachable''))\<rparr>)
         (JStr ''i-abc123'') success_title ''text'' 15158332) = None
   \<and> \<not> list_ex is_HttpPost
         (fst (send_discord ((world [] None)\<lparr>DISCORD_WEBHOOK := Some []\<rparr>)
            (JStr ''i-abc123'') skip_title ''text'' 16776960))"
  using send_discord_without_webhook
          [of "(world [] None)\<lparr>DISCORD_WEBHOOK := None,
                 http_request := (\<lambda>url body. Some (HTTPError ''unreachable''))\<rparr>"
              "JStr ''i-abc123''" success_title "''text''" 15158332]
        send_discord_without_webhook
          [of "(world [] None)\<lparr>DISCORD_WEBHOOK := Some []\<rparr>"
              "JStr ''i-abc123''" skip_title "''text''" 16776960]
  by simp

text \<open>
  C7. For an event that is not under maintenance, an exception raised by the command
  dispatch leaves the handler, and neither \<^verbatim>\<open>send_discord\<close> nor an HTTP request
  happens in that invocation.
\<close>

theorem command_failure_propagates:
  assumes "parse_event env event = Inr (r, d, i)"
      and "describe_tags env i = Inr tags"
      and "\<not> is_maintenance tags"
      and "send_command env i (SSM_DOCUMENT env) = Some e"
  shows "snd (lambda_handler env event) = Inl e
         \<and> \<not> list_ex is_SendDiscord (fst (lambda_handler env event))
         \<and> \<not> list_ex is_HttpPost (fst (lambda_handler env event))"
  using handler_command_error [OF assms] by simp

theorem command_failure_propagates_witness:
  "snd (lambda_handler (world [] (Some (ClientError ''InvalidInstanceId''))) alarm_event)
     = Inl (ClientError ''InvalidInstanceId'')
   \<and> \<not> list_ex is_SendDiscord
         (fst (lambda_handler (world [] (Some (ClientError ''InvalidInstanceId''))) alarm_event))
   \<and> \<not> list_ex is_HttpPost
         (fst (lambda_handler (world [] (Some (ClientError ''InvalidInstanceId''))) alarm_event))"
proof -
  have n: "\<not> is_maintenance []" by simp
  show ?thesis
    by (rule command_failure_propagates [OF world_parse world_tags n world_command])
qed

section \<open>Downtime\<close>

text \<open>
  C4, with truncation. For an event whose \<open>time\<close> parses, the downtime is
  \<^verbatim>\<open>int\<close> of the double nearest to the difference, in seconds, between the
  invocation time and the event time. While the difference is below \<open>2 ^ 34\<close>
  seconds in magnitude, this is the difference cut to whole seconds towards zero: the
  floor of the quotient when the difference is not negative, its ceiling when it is
  negative. The decimal form of the downtime is the one printed in the description
  of the success notification.
\<close>

theorem downtime_is_truncated_difference:
  assumes "py_get event ''time'' JNull = Inr ts"
      and "py_replace_Z ts = Inr s"
      and "fromisoformat env s = Some t"
  shows "\<exists>us. datetime_sub (datetime_now env (utcoffset t)) t = Inr us
           \<and> us = (case utcoffset t of
                     None \<Rightarrow> now_utc_us env + local_offset_us env - wall_us t
                   | Some off \<Rightarrow> now_utc_us env - (wall_us t - off))
           \<and> downtime_duration_of env event = Inr (int_total_seconds us)
           \<and> (\<bar>us\<bar> < 2 ^ 34 * 1000000 \<longrightarrow>
                int_total_seconds us =
                  (if 0 \<le> us then \<lfloor>real_of_int us / 1000000\<rfloor>
                   else \<lceil>real_of_int us / 1000000\<rceil>))
           \<and> (\<forall>calls. lambda_handler env event = (calls, Inr (status ''success'')) \<longrightarrow>
                (\<exists>r i. SendDiscord i success_title
                   (''**Cause of Downtime:** `'' @ py_str env r @ ''`'' @ [CHR 0x0A]
                      @ ''**Time Since Detection:** `'' @ str_int (int_total_seconds us)
                      @ '' seconds`'' @ [CHR 0x0A]
                      @ ''**Remediation:** Triggered `'' @ str_opt (SSM_DOCUMENT env)
                      @ ''` successfully.'') 15158332 \<in> set calls))"
proof -
  define us where "us = (case utcoffset t of
                     None \<Rightarrow> now_utc_us env + local_offset_us env - wall_us t
                   | Some off \<Rightarrow> now_utc_us env - (wall_us t - off))"
  have sub: "datetime_sub (datetime_now env (utcoffset t)) t = Inr us"
    unfolding us_def by (rule datetime_sub_now)
  have dd: "downtime_duration_of env event = Inr (int_total_seconds us)"
    using assms sub by (simp add: downtime_duration_of_def bind_err_def)
  have post: "\<exists>r i. SendDiscord i success_title
                   (''**Cause of Downtime:** `'' @ py_str env r @ ''`'' @ [CHR 0x0A]
                      @ ''**Time Since Detection:** `'' @ str_int (int_total_seconds us)
                      @ '' seconds`'' @ [CHR 0x0A]
                      @ ''**Remediation:** Triggered `'' @ str_opt (SSM_DOCUMENT env)
                      @ ''` successfully.'') 15158332 \<in> set calls"
    if "lambda_handler env event = (calls, Inr (status ''success''))" for calls
  proof -
    from handler_success_notification [OF that] obtain r d i where
      p: "parse_event env event = Inr (r, d, i)" and
      m: "SendDiscord i success_title (success_description env r d) 15158332 \<in> set calls"
      by blast
    from parse_event_downtime [OF p] dd have "d = int_total_seconds us" by simp
    with m show ?thesis unfolding success_description_def by blast
  qed
  have tr: "\<bar>us\<bar> < 2 ^ 34 * 1000000 \<longrightarrow>
                int_total_seconds us =
                  (if 0 \<le> us then \<lfloor>real_of_int us / 1000000\<rfloor>
                   else \<lceil>real_of_int us / 1000000\<rceil>)"
    using int_total_seconds_trunc [of us] by blast
  from sub dd post tr show ?thesis
    unfolding us_def [symmetric] by blast
qed

theorem downtime_is_truncated_difference_witness:
  "\<bar>90500000 :: int\<bar> < 2 ^ 34 * 1000000
   \<and> \<lfloor>real_of_int 90500000 / 1000000\<rfloor> = (90 :: int)
   \<and> downtime_duration_of (world [] None) alarm_event = Inr 90
   \<and> (\<exists>r i. SendDiscord i success_title
         (''**Cause of Downtime:** `'' @ py_str (world [] None) r @ ''`'' @ [CHR 0x0A]
            @ ''**Time Since Detection:** `90 seconds`'' @ [CHR 0x0A]
            @ ''**Remediation:** Triggered `RestartService` successfully.'') 15158332
        \<in> set (fst (lambda_handler (world [] None) alarm_event)))"
proof -
  have a: "py_get alarm_event ''time'' JNull = Inr (JStr ''2024-01-01T00:00:00Z'')"
    by (simp add: alarm_event_def event_of_def py_get_def)
  have b: "py_replace_Z (JStr ''2024-01-01T00:00:00Z'') = Inr ''2024-01-01T00:00:00+00:00''"
    by (simp add: py_replace_Z_def)
  have c: "fromisoformat (world [] None) ''2024-01-01T00:00:00+00:00''
             = Some \<lparr>wall_us = 1704067200000000, utcoffset = Some 0\<rparr>"
    by (simp add: world_def)
  have p: "parse_event (world [] None) alarm_event
             = Inr (JStr ''Instance reachability check failed'', 90, JStr ''i-abc123'')"
    by (simp add: eval_defs)
  have h: "lambda_handler (world [] None) alarm_event
             = (fst (lambda_handler (world [] None) alarm_event), Inr (status ''success''))"
    using world_success by (metis prod.collapse)
  have n: "now_utc_us (world [] None) = 1704067290500000" "SSM_DOCUMENT (world [] None) = Some ''RestartService''"
    by (simp_all add: world_def)
  have s: "str_int 90 = ''90''" by (simp add: str_int_def)
  show ?thesis
    using downtime_is_truncated_difference [OF a b c] h
    by (simp add: n int_total_seconds_exact s str_opt_def)
qed

text \<open>
  The claim with \<open>floor\<close> fails when the event is stamped after the
  handler's clock: at a difference of -1.5 seconds the handler computes -1, and the
  floor is -2.
\<close>

theorem downtime_floor_counterexample:
  "py_get alarm_event ''time'' JNull = Inr (JStr ''2024-01-01T00:00:00Z'')
   \<and> py_replace_Z (JStr ''2024-01-01T00:00:00Z'') = Inr ''2024-01-01T00:00:00+00:00''
   \<and> fromisoformat ((world [] None)\<lparr>now_utc_us := 1704067198500000\<rparr>) ''2024-01-01T00:00:00+00:00''
       = Some \<lparr>wall_us = 1704067200000000, utcoffset = Some 0\<rparr>
   \<and> datetime_sub (datetime_now ((world [] None)\<lparr>now_utc_us := 1704067198500000\<rparr>) (Some 0))
         \<lparr>wall_us = 1704067200000000, utcoffset = Some 0\<rparr> = Inr (- 1500000)
   \<and> downtime_duration_of ((world [] None)\<lparr>now_utc_us := 1704067198500000\<rparr>) alarm_event
       = Inr (- 1)
   \<and> \<lfloor>real_of_int (- 1500000) / 1000000\<rfloor> = (- 2 :: int)
   \<and> downtime_duration_of ((world [] None)\<lparr>now_utc_us := 1704067198500000\<rparr>) alarm_event
       \<noteq> Inr \<lfloor>real_of_int (- 1500000) / 1000000\<rfloor>"
  by (simp add: eval_defs)

section \<open>Extraction of the event\<close>

text \<open>
  C5. When a key on the way to \<open>detail.state.reason\<close> is absent, the extracted
  reason is \<open>N/A\<close>; when a key on the way to
  \<open>detail.configuration.metrics[0].metricStat.metric.dimensions.InstanceId\<close> is absent,
  the extracted instance id is \<open>Unknown\<close>.
\<close>

theorem missing_fields_get_defaults:
  "(missing reason_path event \<longrightarrow>
      (\<exists>detail. py_get event ''detail'' (JDict []) = Inr detail
         \<and> state_reason_of detail = Inr (JStr ''N/A'')))
   \<and> (missing instance_id_path event \<longrightarrow>
      (\<exists>detail. py_get event ''detail'' (JDict []) = Inr detail
         \<and> instance_id_of detail = Inr (JStr ''Unknown'')))
   \<and> (\<forall>r d i. parse_event env event = Inr (r, d, i) \<longrightarrow>
         (missing reason_path event \<longrightarrow> r = JStr ''N/A'')
       \<and> (missing instance_id_path event \<longrightarrow> i = JStr ''Unknown''))"
proof (intro conjI impI allI)
  assume "missing reason_path event"
  then show "\<exists>detail. py_get event ''detail'' (JDict []) = Inr detail
         \<and> state_reason_of detail = Inr (JStr ''N/A'')" by (rule missing_reason)
next
  assume "missing instance_id_path event"
  then show "\<exists>detail. py_get event ''detail'' (JDict []) = Inr detail
         \<and> instance_id_of detail = Inr (JStr ''Unknown'')" by (rule missing_instance_id)
next
  fix r d i
  assume p: "parse_event env event = Inr (r, d, i)" and m: "missing reason_path event"
  from missing_reason [OF m] p show "r = JStr ''N/A''"
    by (auto simp: parse_event_parts)
next
  fix r d i
  assume p: "parse_event env event = Inr (r, d, i)" and m: "missing instance_id_path event"
  from missing_instance_id [OF m] p show "i = JStr ''Unknown''"
    by (auto simp: parse_event_parts)
qed

theorem missing_fields_get_defaults_witness:
  "missing reason_path (JDict [(''time'', JStr ''2024-01-01T00:00:00Z''), (''detail'', JDict [])])
   \<and> missing instance_id_path (JDict [(''time'', JStr ''2024-01-01T00:00:00Z''), (''detail'', JDict [])])
   \<and> parse_event (world [] None)
        (JDict [(''time'', JStr ''2024-01-01T00:00:00Z''), (''detail'', JDict [])])
       = Inr (JStr ''N/A'', 90, JStr ''Unknown'')"
proof -
  let ?ev = "JDict [(''time'', JStr ''2024-01-01T00:00:00Z''), (''detail'', JDict [])]"
  have m1: "missing reason_path ?ev"
    by (simp add: reason_path_def)
  have m2: "missing instance_id_path ?ev"
    by (simp add: instance_id_path_def)
  have d: "downtime_duration_of (world [] None) ?ev = Inr 90"
    by (simp add: eval_defs)
  have g: "py_get ?ev ''detail'' (JDict []) = Inr (JDict [])"
    by (simp add: py_get_def)
  from missing_fields_get_defaults [of ?ev "world [] None"] m1 m2 g
  have "state_reason_of (JDict []) = Inr (JStr ''N/A'')"
       "instance_id_of (JDict []) = Inr (JStr ''Unknown'')"
    by auto
  with g d have "parse_event (world [] None) ?ev = Inr (JStr ''N/A'', 90, JStr ''Unknown'')"
    by (simp add: parse_event_def bind_err_def)
  with m1 m2 show ?thesis by simp
qed

text \<open>
  C8. When the top-level \<open>time\<close> of the event is absent or null, the handler
  raises during extraction (an \<^verbatim>\<open>AttributeError\<close>) and has made no call to any
  service: the timestamp has no default.
\<close>

theorem missing_time_raises:
  assumes "\<forall>kvs. event = JDict kvs \<longrightarrow>
             map_of kvs ''time'' = None \<or> map_of kvs ''time'' = Some JNull"
  shows "lambda_handler env event = ([], Inl AttributeError)"
proof -
  have "parse_event env event = Inl AttributeError"
  proof (cases event)
    case (JDict kvs)
    with assms have "py_get event ''time'' JNull = Inr JNull"
      by (auto simp: py_get_def)
    then have d: "downtime_duration_of env event = Inl AttributeError"
      by (simp add: downtime_duration_of_def bind_err_def py_replace_Z_def)
    obtain detail where g: "py_get event ''detail'' (JDict []) = Inr detail"
      using JDict by (cases "map_of kvs ''detail''") (simp_all add: py_get_def)
    show ?thesis
    proof (cases "state_reason_of detail")
      case (Inl e)
      with state_reason_of_error [OF Inl] g show ?thesis
        by (simp add: parse_event_def bind_err_def)
    next
      case (Inr r)
      with g d show ?thesis by (simp add: parse_event_def bind_err_def)
    qed
  qed (simp_all add: parse_event_def bind_err_def py_get_def)
  then show ?thesis by (rule handler_parse_error)
qed

theorem missing_time_raises_witness:
  "lambda_handler (world [] None) (event_of [] [(''InstanceId'', JStr ''i-abc123'')])
     = ([], Inl AttributeError)
   \<and> lambda_handler (world [] None)
       (event_of [(''time'', JNull)] [(''InstanceId'', JStr ''i-abc123'')])
     = ([], Inl AttributeError)"
proof -
  have a: "\<forall>kvs. event_of [] [(''InstanceId'', JStr ''i-abc123'')] = JDict kvs \<longrightarrow>
             map_of kvs ''time'' = None \<or> map_of kvs ''time'' = Some JNull"
    by (simp add: event_of_def)
  have b: "\<forall>kvs. event_of [(''time'', JNull)] [(''InstanceId'', JStr ''i-abc123'')] = JDict kvs \<longrightarrow>
             map_of kvs ''time'' = None \<or> map_of kvs ''time'' = Some JNull"
    by (simp add: event_of_def)
  show ?thesis
    using missing_time_raises [OF a] missing_time_raises [OF b] by simp
qed

text \<open>
  C9. When \<open>detail.configuration.metrics\<close> is present and is the empty list,
  indexing its first element raises \<^verbatim>\<open>IndexError\<close> and the handler ends with an
  exception before any call; the default \<open>Unknown\<close> is what an absent
  \<open>metrics\<close> key gives.
\<close>

theorem empty_metrics_raises:
  assumes "py_get event ''detail'' (JDict []) = Inr detail"
      and "py_get detail ''configuration'' (JDict []) = Inr (JDict conf)"
      and "map_of conf ''metrics'' = Some (JList [])"
  shows "instance_id_of detail = Inl IndexError
         \<and> (\<exists>e. lambda_handler env event = ([], Inl e))
         \<and> (\<forall>r d. state_reason_of detail = Inr r \<and> downtime_duration_of env event = Inr d \<longrightarrow>
               lambda_handler env event = ([], Inl IndexError))
         \<and> (\<forall>conf' :: (string \<times> json) list. map_of conf' ''metrics'' = None \<longrightarrow>
               instance_id_of (JDict [(''configuration'', JDict conf')]) = Inr (JStr ''Unknown''))"
proof (intro conjI allI impI)
  show i: "instance_id_of detail = Inl IndexError"
    using assms(2,3) by (simp add: instance_id_of_def bind_err_def py_get_def py_item0_def)
  have "\<exists>e. parse_event env event = Inl e"
    using assms(1) i by (auto simp: parse_event_def bind_err_def split: sum.splits)
  then show "\<exists>e. lambda_handler env event = ([], Inl e)"
    by (auto dest: handler_parse_error)
next
  fix r d
  assume "state_reason_of detail = Inr r \<and> downtime_duration_of env event = Inr d"
  moreover have "instance_id_of detail = Inl IndexError"
    using assms(2,3) by (simp add: instance_id_of_def bind_err_def py_get_def py_item0_def)
  ultimately have "parse_event env event = Inl IndexError"
    using assms(1) by (simp add: parse_event_def bind_err_def)
  then show "lambda_handler env event = ([], Inl IndexError)" by (rule handler_parse_error)
next
  fix conf' :: "(string \<times> json) list"
  assume "map_of conf' ''metrics'' = None"
  then show "instance_id_of (JDict [(''configuration'', JDict conf')]) = Inr (JStr ''Unknown'')"
    by (simp add: instance_id_of_def bind_err_def py_get_def py_item0_def)
qed

theorem empty_metrics_raises_witness:
  "lambda_handler (world [] None) empty_metrics_event = ([], Inl IndexError)
   \<and> instance_id_of (JDict [(''configuration'', JDict [])]) = Inr (JStr ''Unknown'')"
proof -
  have a: "py_get empty_metrics_event ''detail'' (JDict [])
             = Inr (JDict [
               (''state'', JDict [(''reason'', JStr ''Instance reachability check failed'')]),
               (''configuration'', JDict [(''metrics'', JList [])])])"
    by (simp add: empty_metrics_event_def py_get_def)
  have b: "py_get (JDict [
               (''state'', JDict [(''reason'', JStr ''Instance reachability check failed'')]),
               (''configuration'', JDict [(''metrics'', JList [])])]) ''configuration'' (JDict [])
             = Inr (JDict [(''metrics'', JList [])])"
    by (simp add: py_get_def)
  have c: "map_of [(''metrics'', JList [])] ''metrics'' = Some (JList [])"
    by simp
  have r: "state_reason_of (JDict [
               (''state'', JDict [(''reason'', JStr ''Instance reachability check failed'')]),
               (''configuration'', JDict [(''metrics'', JList [])])])
             = Inr (JStr ''Instance reachability check failed'')"
    by (simp add: state_reason_of_def bind_err_def py_get_def)
  have d: "downtime_duration_of (world [] None) empty_metrics_event = Inr 90"
    by (simp add: empty_metrics_event_def eval_defs)
  show ?thesis
    using empty_metrics_raises [OF a b c, of "world [] None"] r d by simp
qed

text \<open>
  C10. When the instance id is missing and the rest of the event parses, the handler
  goes on with \<open>Unknown\<close>: the tag query is made for it, and when the maintenance
  check is false the remediation command is dispatched against it.
\<close>

theorem unknown_instance_is_remediated:
  assumes "missing instance_id_path event"
      and "py_get event ''detail'' (JDict []) = Inr detail"
      and "state_reason_of detail = Inr r"
      and "downtime_duration_of env event = Inr d"
  shows "parse_event env event = Inr (r, d, JStr ''Unknown'')
         \<and> take 1 (fst (lambda_handler env event)) = [DescribeTags (JStr ''Unknown'')]
         \<and> (\<forall>tags. describe_tags env (JStr ''Unknown'') = Inr tags \<and> \<not> is_maintenance tags \<longrightarrow>
               take 2 (fst (lambda_handler env event))
                 = [DescribeTags (JStr ''Unknown''),
                    SendCommand (JStr ''Unknown'') (SSM_DOCUMENT env)])"
proof -
  from missing_instance_id [OF assms(1)] assms(2)
  have i: "instance_id_of detail = Inr (JStr ''Unknown'')" by auto
  have p: "parse_event env event = Inr (r, d, JStr ''Unknown'')"
    using assms(2-4) i by (simp add: parse_event_def bind_err_def)
  have one: "take 1 (fst (lambda_handler env event)) = [DescribeTags (JStr ''Unknown'')]"
  proof (cases "describe_tags env (JStr ''Unknown'')")
    case (Inl e)
    from handler_tags_error [OF p Inl] show ?thesis by simp
  next
    case (Inr tags)
    show ?thesis
    proof (cases "is_maintenance tags")
      case True
      from handler_maintenance [OF p Inr True] show ?thesis by simp
    next
      case False
      show ?thesis
      proof (cases "send_command env (JStr ''Unknown'') (SSM_DOCUMENT env)")
        case None
        from handler_remediated [OF p Inr False None] show ?thesis by simp
      next
        case (Some e)
        from handler_command_error [OF p Inr False Some] show ?thesis by simp
      qed
    qed
  qed
  have two: "take 2 (fst (lambda_handler env event))
                 = [DescribeTags (JStr ''Unknown''),
                    SendCommand (JStr ''Unknown'') (SSM_DOCUMENT env)]"
    if "describe_tags env (JStr ''Unknown'') = Inr tags" "\<not> is_maintenance tags" for tags
  proof (cases "send_command env (JStr ''Unknown'') (SSM_DOCUMENT env)")
    case None
    from handler_remediated [OF p that None] show ?thesis by simp
  next
    case (Some e)
    from handler_command_error [OF p that Some] show ?thesis by simp
  qed
  from p one two show ?thesis by blast
qed

theorem unknown_instance_is_remediated_witness:
  "take 2 (fst (lambda_handler (world [] None)
                  (event_of [(''time'', JStr ''2024-01-01T00:00:00Z'')] [])))
     = [DescribeTags (JStr ''Unknown''), SendCommand (JStr ''Unknown'') (Some ''RestartService'')]"
proof -
  have m: "missing instance_id_path (event_of [(''time'', JStr ''2024-01-01T00:00:00Z'')] [])"
    by (simp add: instance_id_path_def event_of_def)
  have g: "py_get (event_of [(''time'', JStr ''2024-01-01T00:00:00Z'')] []) ''detail'' (JDict [])
             = Inr (JDict [
       (''state'', JDict [(''reason'', JStr ''Instance reachability check failed'')]),
       (''configuration'', JDict [(''metrics'', JList [JDict [(''metricStat'',
          JDict [(''metric'', JDict [(''dimensions'', JDict [])])])]])])])"
    by (simp add: event_of_def py_get_def)
  have r: "state_reason_of (JDict [
       (''state'', JDict [(''reason'', JStr ''Instance reachability check failed'')]),
       (''configuration'', JDict [(''metrics'', JList [JDict [(''metricStat'',
          JDict [(''metric'', JDict [(''dimensions'', JDict [])])])]])])])
            = Inr (JStr ''Instance reachability check failed'')"
    by (simp add: state_reason_of_def bind_err_def py_get_def)
  have d: "downtime_duration_of (world [] None)
             (event_of [(''time'', JStr ''2024-01-01T00:00:00Z'')] []) = Inr 90"
    by (simp add: eval_defs)
  have n: "\<not> is_maintenance []" by simp
  have s: "SSM_DOCUMENT (world [] None) = Some ''RestartService''"
    by (simp add: world_def)
  from unknown_instance_is_remediated [OF m g r d]
  have "describe_tags (world [] None) (JStr ''Unknown'') = Inr [] \<and> \<not> is_maintenance [] \<longrightarrow>
          take 2 (fst (lambda_handler (world [] None)
                  (event_of [(''time'', JStr ''2024-01-01T00:00:00Z'')] [])))
            = [DescribeTags (JStr ''Unknown''),
               SendCommand (JStr ''Unknown'') (SSM_DOCUMENT (world [] None))]"
    by blast
  with world_tags [of "[]" None "JStr ''Unknown''"] n s show ?thesis by simp
qed

end
